theory Spec2Isabelle
  imports Complex_Main "HOL-Library.Sublist"
begin

section \<open>Weather pipeline: container launch, database load, summary, teardown\<close>

text \<open>
  A shallow embedding of \<^verbatim>\<open>main_script.py\<close>. Every function of the script talks to
  the outside world (the container runtime, the database, the console). The model makes
  that world explicit: what the world answers is an argument, what the script does to
  it is a returned list of events or a returned database state, and every exception is
  a value.
\<close>

subsection \<open>Exceptions, outcomes, events\<close>

datatype exn =
    CalledProcessError            \<comment> \<open>\<^verbatim>\<open>subprocess.run(..., check=True)\<close>: the tool exited non-zero\<close>
  | OSError                       \<comment> \<open>\<^verbatim>\<open>subprocess.run\<close> could not start the tool at all\<close>
  | RuntimeError string           \<comment> \<open>raised by the script; the text names the container or table\<close>
  | ValueError int int            \<comment> \<open>raised by \<^verbatim>\<open>load_data\<close>: rows counted, rows expected\<close>
  | OperationalError              \<comment> \<open>the database cannot be reached\<close>
  | ProgrammingError              \<comment> \<open>the database refuses the statement\<close>
  | ParserError                   \<comment> \<open>\<^verbatim>\<open>pd.to_datetime\<close> cannot read a string\<close>
  | KeyError                      \<comment> \<open>a dictionary has no such key\<close>
  | EOFError                      \<comment> \<open>\<^verbatim>\<open>input()\<close> at the end of the input\<close>

text \<open>
  What a call does: it returns, it raises, or (for a loop fed from a finite list of
  answers of the world) it is still running when the answers are used up.
\<close>

datatype 'a outcome = Return 'a | Raise exn | Running

text \<open>What \<^verbatim>\<open>subprocess.run(cmd, check=True)\<close> can do.\<close>

datatype proc =
    Exit0 string                  \<comment> \<open>exit status 0, with the captured standard output\<close>
  | ExitNonZero                   \<comment> \<open>non-zero exit status: \<^verbatim>\<open>CalledProcessError\<close>\<close>
  | SpawnError                    \<comment> \<open>the tool could not be started: an \<^verbatim>\<open>OSError\<close>\<close>

text \<open>The messages the script prints, by kind (the texts are Russian sentences).\<close>

datatype message =
    MsgStarting | MsgWaiting
  | MsgRunning string | MsgNotRunning string | MsgCheckError exn
  | MsgCreating | MsgDDLError exn | MsgCreated string
  | MsgWriting | MsgWritten string
  | MsgInvalidAnswer

datatype event =
    Print message
  | WriteFile string string
  | Run "string list"
  | Sleep nat
  | Prompt

subsection \<open>\<^verbatim>\<open>launch_container\<close>\<close>

text \<open>The descriptor rendered by the f-string of lines 34 to 52.\<close>

definition docker_compose_content :: "string \<Rightarrow> string \<Rightarrow> string \<Rightarrow> string \<Rightarrow> string \<Rightarrow> string \<Rightarrow> string" where
  "docker_compose_content container_name db_name db_user db_password db_port db_port_a =
     concat
      [''\<newline>'',
       ''    services:\<newline>'',
       ''      postgres:\<newline>'',
       ''        image: postgres:16\<newline>'',
       ''        restart: always\<newline>'',
       ''        shm_size: 1024mb\<newline>'',
       ''        container_name: \"'', container_name, ''\"\<newline>'',
       ''        environment:\<newline>'',
       ''          POSTGRES_USER: \"'', db_user, ''\"\<newline>'',
       ''          POSTGRES_PASSWORD: \"'', db_password, ''\"\<newline>'',
       ''          POSTGRES_DB: \"'', db_name, ''\"\<newline>'',
       ''        ports:\<newline>'',
       ''          - \"'', db_port_a, '':'', db_port, ''\"\<newline>'',
       ''        volumes:\<newline>'',
       ''          - pg_data:/var/lib/postgresql/data\<newline>'',
       ''\<newline>'',
       ''    volumes:\<newline>'',
       ''      pg_data:\<newline>'',
       ''    '']"

definition compose_up :: "string list" where
  "compose_up = [''docker-compose'', ''up'', ''-d'']"

text \<open>
  The listing command of lines 70 to 73. It is a constant of the source: the filter is
  the literal \<^verbatim>\<open>name=postgres_weather\<close>, whatever the container is called.
\<close>

definition docker_ps :: "string list" where
  "docker_ps = [''docker'', ''ps'', ''--filter'', ''name=postgres_weather'', ''--format'', ''{{.Names}}'']"

text \<open>
  The polling loop of lines 67 to 85, with \<^verbatim>\<open>retry_count\<close> as its state. The
  list holds what the successive invocations of the listing command do; one is consumed
  per iteration. Python's \<^verbatim>\<open>container_name in result.stdout\<close> on two strings is
  containment as a contiguous piece, \<^const>\<open>sublist\<close>. Only the branch that finds the
  name missing adds one to \<^verbatim>\<open>retry_count\<close> and sleeps; the handler of
  \<^verbatim>\<open>CalledProcessError\<close> prints and falls through to the next iteration. Any other
  exception of \<^verbatim>\<open>subprocess.run\<close> is not handled and leaves the function.
\<close>

fun poll :: "string \<Rightarrow> nat \<Rightarrow> proc list \<Rightarrow> string outcome \<times> event list" where
  "poll container_name retry_count [] =
     (if retry_count \<le> 2 then (Running, [])
      else (Raise (RuntimeError container_name), []))"
| "poll container_name retry_count (r # rs) =
     (if retry_count \<le> 2 then
        (case r of
           Exit0 stdout \<Rightarrow>
             if sublist container_name stdout
             then (Return ''Success'', [Run docker_ps, Print (MsgRunning container_name)])
             else (case poll container_name (retry_count + 1) rs of
                     (out, ev) \<Rightarrow>
                       (out, [Run docker_ps, Print (MsgNotRunning container_name), Sleep 10] @ ev))
         | ExitNonZero \<Rightarrow>
             (case poll container_name retry_count rs of
                (out, ev) \<Rightarrow>
                  (out, [Run docker_ps, Print (MsgCheckError CalledProcessError)] @ ev))
         | SpawnError \<Rightarrow> (Raise OSError, [Run docker_ps]))
      else (Raise (RuntimeError container_name), []))"

text \<open>
  The whole function: write the descriptor, bring the service up (an error of the
  orchestration tool leaves the function), sleep, then poll from \<^verbatim>\<open>retry_count = 0\<close>.
\<close>

definition launch_container ::
  "string \<Rightarrow> string \<Rightarrow> string \<Rightarrow> string \<Rightarrow> string \<Rightarrow> string \<Rightarrow> proc \<Rightarrow> proc list
     \<Rightarrow> string outcome \<times> event list" where
  "launch_container container_name db_name db_user db_password db_port db_port_a up checks =
     (let start =
            [WriteFile ''docker-compose.yml''
               (docker_compose_content container_name db_name db_user db_password db_port db_port_a),
             Print MsgStarting, Run compose_up]
      in case up of
           ExitNonZero \<Rightarrow> (Raise CalledProcessError, start)
         | SpawnError \<Rightarrow> (Raise OSError, start)
         | Exit0 _ \<Rightarrow>
             (case poll container_name 0 checks of
                (out, ev) \<Rightarrow> (out, start @ [Print MsgWaiting, Sleep 10] @ ev)))"

text \<open>How many times a run invoked the listing command.\<close>

definition attempts :: "event list \<Rightarrow> nat" where
  "attempts ev = length (filter (\<lambda>e. e = Run docker_ps) ev)"

text \<open>
  The reading of the specification's "exact name match": the listing prints one name
  per line, and the container's name is one of the lines.
\<close>

fun split_lines :: "string \<Rightarrow> string list" where
  "split_lines [] = []"
| "split_lines (c # cs) =
     (if c = CHR 0x0A then [] # split_lines cs
      else (case split_lines cs of [] \<Rightarrow> [[c]] | l # ls \<Rightarrow> (c # l) # ls))"

definition exact_name_match :: "string \<Rightarrow> string \<Rightarrow> bool" where
  "exact_name_match container_name stdout = (container_name \<in> set (split_lines stdout))"

subsection \<open>The weather table\<close>

text \<open>
  A cell of a numeric column is a number or missing (\<^verbatim>\<open>NaN\<close>): \<open>None\<close>. The script
  only compares these numbers, so they are taken as reals. A timestamp has the three
  fields the script reads and the time of day, which it does not read but which tells
  two timestamps of one day apart. The date column of a frame handed to
  \<^verbatim>\<open>get_dates\<close> holds timestamps (as the fetcher builds them) or strings (as the
  docstring of \<^verbatim>\<open>get_dates\<close> asks for).
\<close>

record timestamp =
  year :: int
  month :: nat
  day :: nat
  time_of_day :: nat

datatype date_cell = DateStr string | DateTs timestamp

record 'd row =
  date :: 'd
  weather_code :: "real option"
  temperature_2m_max :: "real option"
  temperature_2m_min :: "real option"
  apparent_temperature_max :: "real option"
  apparent_temperature_min :: "real option"
  wind_speed_10m_max :: "real option"

type_synonym dataframe = "date_cell row list"

definition with_date :: "'e \<Rightarrow> 'd row \<Rightarrow> 'e row" where
  "with_date d r =
     \<lparr>date = d, weather_code = weather_code r,
      temperature_2m_max = temperature_2m_max r, temperature_2m_min = temperature_2m_min r,
      apparent_temperature_max = apparent_temperature_max r,
      apparent_temperature_min = apparent_temperature_min r,
      wind_speed_10m_max = wind_speed_10m_max r\<rparr>"

definition frame_columns :: "string list" where
  "frame_columns =
     [''date'', ''weather_code'', ''temperature_2m_max'', ''temperature_2m_min'',
      ''apparent_temperature_max'', ''apparent_temperature_min'', ''wind_speed_10m_max'']"

subsection \<open>The database gateway\<close>

datatype sqltype = DATE | INTEGER | FLOAT | REAL | BIGINT | TIMESTAMP | TIMESTAMPTZ | TEXT

record column =
  cname :: string
  ctype :: sqltype
  pkey :: bool

record table =
  tcolumns :: "column list"
  trows :: dataframe

text \<open>The columns of the DDL statement of \<^verbatim>\<open>create_table\<close>, lines 182 to 190.\<close>

definition ddl_columns :: "column list" where
  "ddl_columns =
     [\<lparr>cname = ''date'', ctype = DATE, pkey = True\<rparr>,
      \<lparr>cname = ''weather_code'', ctype = INTEGER, pkey = False\<rparr>,
      \<lparr>cname = ''temperature_2m_max'', ctype = FLOAT, pkey = False\<rparr>,
      \<lparr>cname = ''temperature_2m_min'', ctype = FLOAT, pkey = False\<rparr>,
      \<lparr>cname = ''apparent_temperature_max'', ctype = FLOAT, pkey = False\<rparr>,
      \<lparr>cname = ''apparent_temperature_min'', ctype = FLOAT, pkey = False\<rparr>,
      \<lparr>cname = ''wind_speed_10m_max'', ctype = FLOAT, pkey = False\<rparr>]"

text \<open>
  The engine, as the four uses the script makes of it, over any type of database
  states:
  \<^item> \<open>execute_ddl\<close>: connect, execute \<^verbatim>\<open>CREATE TABLE IF NOT EXISTS\<close> with the given
    columns, commit, close (lines 196 to 199); the new state and the exception, if any;
  \<^item> \<open>query_exists\<close>: connect, ask the catalogue whether the table exists, commit,
    close, read the scalar (lines 204 to 216);
  \<^item> \<open>to_sql\<close>: \<^verbatim>\<open>DataFrame.to_sql(table_name, engine, if_exists='replace', index=False)\<close>
    (line 237);
  \<^item> \<open>query_count\<close>: connect, \<^verbatim>\<open>SELECT COUNT(*)\<close>, read the scalar (lines 240 to 243).
\<close>

record 'db engine =
  execute_ddl :: "string \<Rightarrow> column list \<Rightarrow> 'db \<Rightarrow> 'db \<times> exn option"
  query_exists :: "string \<Rightarrow> 'db \<Rightarrow> exn + bool"
  to_sql :: "string \<Rightarrow> dataframe \<Rightarrow> 'db \<Rightarrow> 'db \<times> exn option"
  query_count :: "string \<Rightarrow> 'db \<Rightarrow> exn + int"

text \<open>
  \<^verbatim>\<open>create_table\<close>, lines 171 to 224. Whatever the DDL block raises is caught by
  \<^verbatim>\<open>except Exception\<close> and printed; the existence check that follows is not
  guarded.
\<close>

definition create_table :: "'db engine \<Rightarrow> string \<Rightarrow> 'db \<Rightarrow> string outcome \<times> 'db \<times> event list" where
  "create_table engine table_name db =
     (case execute_ddl engine table_name ddl_columns db of
        (db1, ddl_error) \<Rightarrow>
          (let log = Print MsgCreating #
                 (case ddl_error of None \<Rightarrow> [] | Some e \<Rightarrow> [Print (MsgDDLError e)])
           in case query_exists engine table_name db1 of
                Inl e \<Rightarrow> (Raise e, db1, log)
              | Inr table_exists \<Rightarrow>
                  if \<not> table_exists then (Raise (RuntimeError table_name), db1, log)
                  else (Return ''Success'', db1, log @ [Print (MsgCreated table_name)])))"

text \<open>\<^verbatim>\<open>load_data\<close>, lines 226 to 250.\<close>

definition load_data :: "dataframe \<Rightarrow> string \<Rightarrow> 'db engine \<Rightarrow> 'db \<Rightarrow> string outcome \<times> 'db \<times> event list" where
  "load_data daily_dataframe table_name engine db =
     (case to_sql engine table_name daily_dataframe db of
        (db1, Some e) \<Rightarrow> (Raise e, db1, [Print MsgWriting])
      | (db1, None) \<Rightarrow>
          (case query_count engine table_name db1 of
             Inl e \<Rightarrow> (Raise e, db1, [Print MsgWriting])
           | Inr row_count \<Rightarrow>
               if row_count \<noteq> int (length daily_dataframe)
               then (Raise (ValueError row_count (int (length daily_dataframe))), db1, [Print MsgWriting])
               else (Return ''Success'', db1, [Print MsgWriting, Print (MsgWritten table_name)])))"

subsection \<open>A database in memory\<close>

text \<open>
  The database the script runs against, as far as the script can tell: named tables
  with their columns and rows, whether the server answers, and whether the role may
  create tables. \<^verbatim>\<open>to_sql\<close> with \<^verbatim>\<open>if_exists='replace'\<close> drops the table and creates
  it again from the frame: one column per column of the frame, typed from the frame's
  dtypes (the function \<open>ty\<close>, a parameter here), and no key, since pandas declares
  none. The drop, the creation and the inserts are one transaction.
\<close>

record pg =
  tables :: "string \<rightharpoonup> table"
  reachable :: bool
  may_create :: bool

definition pandas_columns :: "(string \<Rightarrow> sqltype) \<Rightarrow> column list" where
  "pandas_columns ty = map (\<lambda>n. \<lparr>cname = n, ctype = ty n, pkey = False\<rparr>) frame_columns"

definition pg_execute_ddl :: "string \<Rightarrow> column list \<Rightarrow> pg \<Rightarrow> pg \<times> exn option" where
  "pg_execute_ddl name cols db =
     (if \<not> reachable db then (db, Some OperationalError)
      else if \<not> may_create db then (db, Some ProgrammingError)
      else (case tables db name of
              Some _ \<Rightarrow> (db, None)
            | None \<Rightarrow> (db\<lparr>tables := (tables db)(name \<mapsto> \<lparr>tcolumns = cols, trows = []\<rparr>)\<rparr>, None)))"

definition pg_query_exists :: "string \<Rightarrow> pg \<Rightarrow> exn + bool" where
  "pg_query_exists name db =
     (if \<not> reachable db then Inl OperationalError else Inr (tables db name \<noteq> None))"

definition pg_to_sql :: "(string \<Rightarrow> sqltype) \<Rightarrow> string \<Rightarrow> dataframe \<Rightarrow> pg \<Rightarrow> pg \<times> exn option" where
  "pg_to_sql ty name frame db =
     (if \<not> reachable db then (db, Some OperationalError)
      else if \<not> may_create db then (db, Some ProgrammingError)
      else (db\<lparr>tables := (tables db)(name \<mapsto> \<lparr>tcolumns = pandas_columns ty, trows = frame\<rparr>)\<rparr>, None))"

definition pg_query_count :: "string \<Rightarrow> pg \<Rightarrow> exn + int" where
  "pg_query_count name db =
     (if \<not> reachable db then Inl OperationalError
      else (case tables db name of
              None \<Rightarrow> Inl ProgrammingError
            | Some t \<Rightarrow> Inr (int (length (trows t)))))"

definition postgres :: "(string \<Rightarrow> sqltype) \<Rightarrow> pg engine" where
  "postgres ty =
     \<lparr>execute_ddl = pg_execute_ddl, query_exists = pg_query_exists,
      to_sql = pg_to_sql ty, query_count = pg_query_count\<rparr>"

text \<open>
  A test double for an engineered mismatch: an engine whose bulk load loses the last
  row of the frame.
\<close>

definition lossy :: "(string \<Rightarrow> sqltype) \<Rightarrow> pg engine" where
  "lossy ty = (postgres ty)\<lparr>to_sql := \<lambda>name frame. pg_to_sql ty name (butlast frame)\<rparr>"

subsection \<open>The summary reporter\<close>

text \<open>
  The two counts of lines 361 and 365. \<^verbatim>\<open>isin([0, 1])\<close> and \<^verbatim>\<open>>= 20\<close> are
  false on a missing value. Both build a new frame and read its height.
\<close>

definition sunny_days :: "'d row list \<Rightarrow> nat" where
  "sunny_days frame = length (filter (\<lambda>r. weather_code r = Some 0 \<or> weather_code r = Some 1) frame)"

definition warm_days :: "'d row list \<Rightarrow> nat" where
  "warm_days frame =
     length (filter (\<lambda>r. case temperature_2m_max r of None \<Rightarrow> False | Some t \<Rightarrow> 20 \<le> t) frame)"

text \<open>
  \<^verbatim>\<open>pd.to_datetime\<close> on the date column: a timestamp stays, a string is read by
  pandas' parser, which is not part of the script and is a parameter here. The
  converted column is assigned to the frame of the caller (line 293).
\<close>

fun to_datetime :: "(string \<Rightarrow> timestamp option) \<Rightarrow> date_cell \<Rightarrow> timestamp option" where
  "to_datetime parse (DateTs t) = Some t"
| "to_datetime parse (DateStr s) = parse s"

fun convert_dates :: "(string \<Rightarrow> timestamp option) \<Rightarrow> dataframe \<Rightarrow> timestamp row list option" where
  "convert_dates parse [] = Some []"
| "convert_dates parse (r # rs) =
     (case to_datetime parse (date r) of
        None \<Rightarrow> None
      | Some t \<Rightarrow>
          (case convert_dates parse rs of
             None \<Rightarrow> None
           | Some rs' \<Rightarrow> Some (with_date t r # rs')))"

text \<open>
  \<^verbatim>\<open>nlargest(n, column)\<close>: the first \<open>n\<close> rows in descending order of the column,
  rows of equal value in their order in the frame (\<^verbatim>\<open>keep='first'\<close>), rows with a
  missing value after all others. \<^const>\<open>sort_key\<close> is a stable ascending sort, used
  on the negated value.
\<close>

definition nlargest :: "nat \<Rightarrow> ('a \<Rightarrow> real option) \<Rightarrow> 'a list \<Rightarrow> 'a list" where
  "nlargest n col frame =
     take n (sort_key (\<lambda>r. case col r of None \<Rightarrow> 0 | Some v \<Rightarrow> - v) (filter (\<lambda>r. col r \<noteq> None) frame)
             @ filter (\<lambda>r. col r = None) frame)"

text \<open>
  \<^verbatim>\<open>drop_duplicates(subset=...)\<close>: a row stays when no earlier row has its key. The
  second argument lists the keys seen so far.
\<close>

fun drop_duplicates :: "('a \<Rightarrow> 'k) \<Rightarrow> 'k list \<Rightarrow> 'a list \<Rightarrow> 'a list" where
  "drop_duplicates key seen [] = []"
| "drop_duplicates key seen (r # rs) =
     (if key r \<in> set seen then drop_duplicates key seen rs
      else r # drop_duplicates key (key r # seen) rs)"

text \<open>
  A row of the pooled frame of line 302. \<^verbatim>\<open>pd.concat\<close> of a frame with the columns
  date and temperature and one with the columns date and wind speed has all three
  columns, each row missing the value of the column its frame did not have.
\<close>

record pooled =
  p_date :: timestamp
  p_temperature_2m_max :: "real option"
  p_wind_speed_10m_max :: "real option"

text \<open>
  The dictionary \<^verbatim>\<open>months\<close> of lines 305 to 318. Its values are the Russian names of
  the months in the genitive case, written here in Latin letters.
\<close>

datatype genitive =
    Yanvarya | Fevralya | Marta | Aprelya | Maya | Iyunya
  | Iyulya | Avgusta | Sentyabrya | Oktyabrya | Noyabrya | Dekabrya

definition months :: "nat \<rightharpoonup> genitive" where
  "months =
     map_of
      [(1, Yanvarya), (2, Fevralya), (3, Marta), (4, Aprelya), (5, Maya), (6, Iyunya),
       (7, Iyulya), (8, Avgusta), (9, Sentyabrya), (10, Oktyabrya), (11, Noyabrya),
       (12, Dekabrya)]"

text \<open>
  The text \<^verbatim>\<open>f"{x.day} {months[x.month]} {x.year}"\<close> of line 321, kept as its three
  parts; \<open>None\<close> when the dictionary has no such month (a \<^verbatim>\<open>KeyError\<close>).
\<close>

type_synonym formatted_date = "nat \<times> genitive \<times> int"

definition format_date :: "timestamp \<Rightarrow> formatted_date option" where
  "format_date x = (case months (month x) of None \<Rightarrow> None | Some m \<Rightarrow> Some (day x, m, year x))"

text \<open>
  Lines 296 to 302 of \<^verbatim>\<open>get_dates\<close>, on the frame with its dates converted: the two
  top-3 frames, their concatenation, and the top 3 by temperature of what
  \<^verbatim>\<open>drop_duplicates(subset='date')\<close> leaves of it.
\<close>

definition top_temp_dates :: "timestamp row list \<Rightarrow> pooled list" where
  "top_temp_dates frame =
     map (\<lambda>r. \<lparr>p_date = date r, p_temperature_2m_max = temperature_2m_max r,
                p_wind_speed_10m_max = None\<rparr>)
       (nlargest 3 temperature_2m_max frame)"

definition top_wind_dates :: "timestamp row list \<Rightarrow> pooled list" where
  "top_wind_dates frame =
     map (\<lambda>r. \<lparr>p_date = date r, p_temperature_2m_max = None,
                p_wind_speed_10m_max = wind_speed_10m_max r\<rparr>)
       (nlargest 3 wind_speed_10m_max frame)"

definition top_dates :: "timestamp row list \<Rightarrow> pooled list" where
  "top_dates frame =
     nlargest 3 p_temperature_2m_max
       (drop_duplicates p_date [] (top_temp_dates frame @ top_wind_dates frame))"

text \<open>
  \<^verbatim>\<open>get_dates\<close>, lines 292 to 326: the list it returns, and the caller's frame as the
  call leaves it.
\<close>

definition get_dates ::
  "(string \<Rightarrow> timestamp option) \<Rightarrow> dataframe \<Rightarrow> formatted_date list outcome \<times> dataframe" where
  "get_dates parse daily_dataframe =
     (case convert_dates parse daily_dataframe of
        None \<Rightarrow> (Raise ParserError, daily_dataframe)
      | Some frame \<Rightarrow>
          (case those (map (\<lambda>r. format_date (p_date r)) (top_dates frame)) of
             None \<Rightarrow> Raise KeyError
           | Some formatted_dates \<Rightarrow> Return formatted_dates,
           map (\<lambda>r. with_date (DateTs (date r)) r) frame))"

text \<open>Lines 360 to 370: the two counts, then \<^verbatim>\<open>get_dates\<close>.\<close>

definition summary_reporter ::
  "(string \<Rightarrow> timestamp option) \<Rightarrow> dataframe \<Rightarrow> (nat \<times> nat \<times> formatted_date list outcome) \<times> dataframe" where
  "summary_reporter parse received_daily_dataframe =
     (let count1 = sunny_days received_daily_dataframe;
          count2 = warm_days received_daily_dataframe
      in case get_dates parse received_daily_dataframe of
           (formatted_dates, frame_after) \<Rightarrow> ((count1, count2, formatted_dates), frame_after))"

text \<open>A parser that reads one date, as pandas reads it, and nothing else.\<close>

definition parse_3_september :: "string \<Rightarrow> timestamp option" where
  "parse_3_september s =
     (if s = ''2024-09-03'' then Some \<lparr>year = 2024, month = 9, day = 3, time_of_day = 0\<rparr> else None)"

subsection \<open>\<^verbatim>\<open>ask_user\<close>\<close>

text \<open>
  \<^verbatim>\<open>str.strip()\<close> and \<^verbatim>\<open>str.lower()\<close> on characters below 256: the white space of
  Python in that range, and the capital letters of ASCII and Latin-1.
\<close>

definition isspace :: "char \<Rightarrow> bool" where
  "isspace c = ((of_char c :: nat) \<in> {9, 10, 11, 12, 13, 28, 29, 30, 31, 32, 133, 160})"

definition strip :: "string \<Rightarrow> string" where
  "strip s = rev (dropWhile isspace (rev (dropWhile isspace s)))"

definition lower_char :: "char \<Rightarrow> char" where
  "lower_char c =
     (let n = (of_char c :: nat)
      in if (65 \<le> n \<and> n \<le> 90) \<or> (192 \<le> n \<and> n \<le> 222 \<and> n \<noteq> 215) then char_of (n + 32) else c)"

definition lower :: "string \<Rightarrow> string" where
  "lower s = map lower_char s"

text \<open>
  \<^verbatim>\<open>ask_user\<close>, lines 264 to 270. The list holds the lines the console delivers;
  \<^verbatim>\<open>input()\<close> raises \<^verbatim>\<open>EOFError\<close> when there is none left.
\<close>

fun ask_user :: "string list \<Rightarrow> string outcome \<times> event list" where
  "ask_user [] = (Raise EOFError, [Prompt])"
| "ask_user (line # rest) =
     (let answer = lower (strip line)
      in if answer = ''y'' \<or> answer = ''n'' then (Return answer, [Prompt])
         else (case ask_user rest of
                 (out, ev) \<Rightarrow> (out, [Prompt, Print MsgInvalidAnswer] @ ev)))"

subsection \<open>Sample data\<close>

text \<open>
  The column types pandas picks for the frame the fetcher builds (dates with a time
  zone, numbers in single precision), a row with a given date, highest temperature and
  wind speed, three days of September 2024, and a database that holds no table yet.
\<close>

definition fetched_types :: "string \<Rightarrow> sqltype" where
  "fetched_types n = (if n = ''date'' then TIMESTAMPTZ else REAL)"

definition observation :: "'d \<Rightarrow> real \<Rightarrow> real \<Rightarrow> 'd row" where
  "observation d t w =
     \<lparr>date = d, weather_code = Some 3,
      temperature_2m_max = Some t, temperature_2m_min = Some (t - 8),
      apparent_temperature_max = Some (t - 1), apparent_temperature_min = Some (t - 9),
      wind_speed_10m_max = Some w\<rparr>"

definition september :: "nat \<Rightarrow> timestamp" where
  "september d = \<lparr>year = 2024, month = 9, day = d, time_of_day = 0\<rparr>"

definition fresh_db :: pg where
  "fresh_db = \<lparr>tables = Map.empty, reachable = True, may_create = True\<rparr>"

section \<open>Properties\<close>

subsection \<open>Polling for the container\<close>

lemma attempts_simps:
  "attempts [] = 0"
  "attempts (Run docker_ps # ev) = Suc (attempts ev)"
  "attempts (Print m # ev) = attempts ev"
  "attempts (Sleep k # ev) = attempts ev"
  "attempts (WriteFile p c # ev) = attempts ev"
  "attempts (Run compose_up # ev) = attempts ev"
  "attempts (ev @ ev') = attempts ev + attempts ev'"
  by (simp_all add: attempts_def docker_ps_def compose_up_def)

text \<open>
  The loop entered with \<open>rc\<close> in \<^verbatim>\<open>retry_count\<close>: listings without the name move the
  counter, and the first listing with the name ends the loop while the counter is at
  most 2.
\<close>

lemma poll_found:
  "length outs + rc \<le> 2 \<Longrightarrow> \<forall>s\<in>set outs. \<not> sublist name s \<Longrightarrow> sublist name out \<Longrightarrow>
   fst (poll name rc (map Exit0 outs @ Exit0 out # rest)) = Return ''Success'' \<and>
   attempts (snd (poll name rc (map Exit0 outs @ Exit0 out # rest))) = length outs + 1"
proof (induction outs arbitrary: rc)
  case Nil
  then show ?case by (simp add: attempts_simps)
next
  case (Cons a outs)
  from Cons.prems
  have "length outs + Suc rc \<le> 2" "\<forall>s\<in>set outs. \<not> sublist name s" "rc \<le> 2" "\<not> sublist name a"
    by simp_all
  with Cons.IH [of "Suc rc"] Cons.prems(3) show ?case
    by (auto simp: attempts_simps split: prod.splits)
qed

lemma poll_exhausted:
  "length outs + rc = 3 \<Longrightarrow> \<forall>s\<in>set outs. \<not> sublist name s \<Longrightarrow>
   fst (poll name rc (map Exit0 outs @ rest)) = Raise (RuntimeError name) \<and>
   attempts (snd (poll name rc (map Exit0 outs @ rest))) = length outs"
proof (induction outs arbitrary: rc)
  case Nil
  then show ?case by (cases rest) (simp_all add: attempts_simps)
next
  case (Cons a outs)
  from Cons.prems
  have "length outs + Suc rc = 3" "\<forall>s\<in>set outs. \<not> sublist name s" "rc \<le> 2" "\<not> sublist name a"
    by simp_all
  with Cons.IH [of "Suc rc"] show ?case
    by (auto simp: attempts_simps split: prod.splits)
qed

text \<open>Invocations that exit non-zero leave the counter where it is.\<close>

lemma poll_errors:
  "rc \<le> 2 \<Longrightarrow> poll name rc (replicate n ExitNonZero) =
     (Running, concat (replicate n [Run docker_ps, Print (MsgCheckError CalledProcessError)]))"
  by (induction n) simp_all

lemma launch_container_up:
  "launch_container name db_name db_user db_password db_port db_port_a (Exit0 u) checks =
     (fst (poll name 0 checks),
      [WriteFile ''docker-compose.yml''
         (docker_compose_content name db_name db_user db_password db_port db_port_a),
       Print MsgStarting, Run compose_up, Print MsgWaiting, Sleep 10] @ snd (poll name 0 checks))"
  by (simp add: launch_container_def split: prod.splits)

text \<open>
  Claim C2. The orchestration tool has brought the service up and every invocation of
  the listing command completes. When the listings \<open>outs\<close> do not hold the container's
  name, there are at most two of them and the next listing holds it,
  \<^verbatim>\<open>launch_container\<close> returns success and has invoked the listing command
  \<open>length outs + 1\<close> times: the answers in \<open>rest\<close> are never asked for. When three
  listings in a row do not hold the name, it raises the \<^verbatim>\<open>RuntimeError\<close> that names
  the container, after exactly three invocations.
\<close>

theorem launch_container_stops_at_first_match:
  assumes "\<forall>s\<in>set outs. \<not> sublist container_name s"
  shows "(length outs \<le> 2 \<and> sublist container_name out \<longrightarrow>
            fst (launch_container container_name db_name db_user db_password db_port db_port_a
                   (Exit0 u) (map Exit0 outs @ Exit0 out # rest)) = Return ''Success'' \<and>
            attempts (snd (launch_container container_name db_name db_user db_password db_port db_port_a
                   (Exit0 u) (map Exit0 outs @ Exit0 out # rest))) = length outs + 1) \<and>
         (length outs = 3 \<longrightarrow>
            fst (launch_container container_name db_name db_user db_password db_port db_port_a
                   (Exit0 u) (map Exit0 outs @ rest)) = Raise (RuntimeError container_name) \<and>
            attempts (snd (launch_container container_name db_name db_user db_password db_port db_port_a
                   (Exit0 u) (map Exit0 outs @ rest))) = 3)"
proof (intro conjI impI)
  assume a: "length outs \<le> 2 \<and> sublist container_name out"
  then have "length outs + 0 \<le> 2" by simp
  from poll_found [OF this assms, of out rest] a
  show "fst (launch_container container_name db_name db_user db_password db_port db_port_a
                   (Exit0 u) (map Exit0 outs @ Exit0 out # rest)) = Return ''Success''"
    and "attempts (snd (launch_container container_name db_name db_user db_password db_port db_port_a
                   (Exit0 u) (map Exit0 outs @ Exit0 out # rest))) = length outs + 1"
    by (simp_all add: launch_container_up attempts_simps)
next
  assume "length outs = 3"
  then have l: "length outs + 0 = 3" by simp
  from poll_exhausted [OF l assms, of rest] l
  show "fst (launch_container container_name db_name db_user db_password db_port db_port_a
                   (Exit0 u) (map Exit0 outs @ rest)) = Raise (RuntimeError container_name)"
    and "attempts (snd (launch_container container_name db_name db_user db_password db_port db_port_a
                   (Exit0 u) (map Exit0 outs @ rest))) = 3"
    by (simp_all add: launch_container_up attempts_simps)
qed

text \<open>
  Found on attempt 2 of 3: the third answer is not consumed. Never found in three
  attempts: the error is raised, and a fourth listing that would hold the name is never
  asked for.
\<close>

theorem launch_container_stops_at_first_match_witness:
  "fst (launch_container ''postgres_weather'' ''postgres'' ''user'' ''pass'' ''5432'' ''5433''
          (Exit0 []) [Exit0 [], Exit0 ''postgres_weather\<newline>'', Exit0 []]) = Return ''Success'' \<and>
   attempts (snd (launch_container ''postgres_weather'' ''postgres'' ''user'' ''pass'' ''5432'' ''5433''
          (Exit0 []) [Exit0 [], Exit0 ''postgres_weather\<newline>'', Exit0 []])) = 2 \<and>
   fst (launch_container ''postgres_weather'' ''postgres'' ''user'' ''pass'' ''5432'' ''5433''
          (Exit0 []) [Exit0 [], Exit0 [], Exit0 [], Exit0 ''postgres_weather\<newline>'']) =
     Raise (RuntimeError ''postgres_weather'') \<and>
   attempts (snd (launch_container ''postgres_weather'' ''postgres'' ''user'' ''pass'' ''5432'' ''5433''
          (Exit0 []) [Exit0 [], Exit0 [], Exit0 [], Exit0 ''postgres_weather\<newline>''])) = 3"
  using launch_container_stops_at_first_match
          [of "[[]]" "''postgres_weather''" "''postgres_weather\<newline>''"
              "''postgres''" "''user''" "''pass''" "''5432''" "''5433''" "[]" "[Exit0 []]"]
        launch_container_stops_at_first_match
          [of "[[], [], []]" "''postgres_weather''" "[]"
              "''postgres''" "''user''" "''pass''" "''5432''" "''5433''" "[]"
              "[Exit0 ''postgres_weather\<newline>'']"]
  by (simp add: sublist_Cons_right)

text \<open>
  Claim C3, which the code does not meet. When every invocation of the listing command
  exits non-zero, the handler prints and the loop goes round again with
  \<^verbatim>\<open>retry_count\<close> unchanged: after any number \<open>n\<close> of such invocations the function
  has invoked the command \<open>n\<close> times, has raised nothing and is still in the loop. And
  an invocation that cannot start the tool is not caught at all: its error leaves the
  function.
\<close>

theorem launch_container_check_errors_not_counted:
  "launch_container container_name db_name db_user db_password db_port db_port_a (Exit0 u)
     (replicate n ExitNonZero) =
     (Running,
      [WriteFile ''docker-compose.yml''
         (docker_compose_content container_name db_name db_user db_password db_port db_port_a),
       Print MsgStarting, Run compose_up, Print MsgWaiting, Sleep 10]
      @ concat (replicate n [Run docker_ps, Print (MsgCheckError CalledProcessError)])) \<and>
   attempts (snd (launch_container container_name db_name db_user db_password db_port db_port_a
     (Exit0 u) (replicate n ExitNonZero))) = n \<and>
   fst (launch_container container_name db_name db_user db_password db_port db_port_a (Exit0 u)
     (SpawnError # rest)) = Raise OSError"
proof -
  have "attempts (concat (replicate n [Run docker_ps, Print (MsgCheckError CalledProcessError)])) = n"
    by (induction n) (simp_all add: attempts_simps)
  then show ?thesis
    by (simp add: launch_container_up poll_errors attempts_simps)
qed

text \<open>
  Claim C8, as amended. A check whose invocation completes reports the container as
  running exactly when the container's name is a contiguous piece of the output: then
  the loop returns success at once; otherwise it prints that the container is not
  running, sleeps and goes on with one more attempt used.
\<close>

theorem check_reports_running_iff_substring:
  assumes "retry_count \<le> 2"
  shows "(sublist container_name stdout \<longleftrightarrow>
            (\<exists>before after. stdout = before @ container_name @ after)) \<and>
         (sublist container_name stdout \<longrightarrow>
            poll container_name retry_count (Exit0 stdout # rest) =
              (Return ''Success'', [Run docker_ps, Print (MsgRunning container_name)])) \<and>
         (\<not> sublist container_name stdout \<longrightarrow>
            poll container_name retry_count (Exit0 stdout # rest) =
              (fst (poll container_name (retry_count + 1) rest),
               [Run docker_ps, Print (MsgNotRunning container_name), Sleep 10]
               @ snd (poll container_name (retry_count + 1) rest)))"
  using assms by (simp add: sublist_def split: prod.splits)

theorem check_reports_running_iff_substring_witness:
  "poll ''postgres_weather'' 0 [Exit0 ''my_postgres_weather_2\<newline>'', Exit0 []] =
     (Return ''Success'', [Run docker_ps, Print (MsgRunning ''postgres_weather'')]) \<and>
   poll ''postgres_weather'' 2 [Exit0 ''postgres\<newline>'', Exit0 ''postgres_weather\<newline>''] =
     (Raise (RuntimeError ''postgres_weather''),
      [Run docker_ps, Print (MsgNotRunning ''postgres_weather''), Sleep 10])"
  using check_reports_running_iff_substring
          [of 0 "''postgres_weather''" "''my_postgres_weather_2\<newline>''" "[Exit0 []]"]
        check_reports_running_iff_substring
          [of 2 "''postgres_weather''" "''postgres\<newline>''" "[Exit0 ''postgres_weather\<newline>'']"]
  by (simp add: sublist_Cons_right)

text \<open>
  Claim C8 as stated fails. The listing holds only another container,
  \<^verbatim>\<open>postgres_weather_2\<close>: no line is the name \<^verbatim>\<open>postgres_weather\<close>, and the function
  returns success. And for a container called \<^verbatim>\<open>weather_db\<close> the command still filters
  on \<^verbatim>\<open>name=postgres_weather\<close>.
\<close>

theorem exact_name_match_counterexample:
  "fst (launch_container ''postgres_weather'' ''postgres'' ''user'' ''pass'' ''5432'' ''5433''
          (Exit0 []) [Exit0 ''postgres_weather_2\<newline>'']) = Return ''Success'' \<and>
   \<not> exact_name_match ''postgres_weather'' ''postgres_weather_2\<newline>'' \<and>
   poll ''weather_db'' 2 [Exit0 []] =
     (Raise (RuntimeError ''weather_db''),
      [Run [''docker'', ''ps'', ''--filter'', ''name=postgres_weather'', ''--format'', ''{{.Names}}''],
       Print (MsgNotRunning ''weather_db''), Sleep 10])"
  by (simp add: launch_container_def exact_name_match_def docker_ps_def sublist_Cons_right)

subsection \<open>Creating and loading the table\<close>

text \<open>
  Claim C1. Whatever the engine and the state of the database: \<^verbatim>\<open>load_data\<close> leaves
  the database as the bulk load left it; it returns success only when the load raised
  nothing and the count that follows equals the number of rows of the frame; and when
  the count \<open>n\<close> differs, it raises the \<^verbatim>\<open>ValueError\<close> with the two numbers, with the
  database still as the load left it.
\<close>

theorem load_data_checks_row_count:
  assumes "to_sql engine table_name frame db = (db1, write_error)"
  shows "fst (snd (load_data frame table_name engine db)) = db1 \<and>
         (fst (load_data frame table_name engine db) = Return ''Success'' \<longrightarrow>
            write_error = None \<and> query_count engine table_name db1 = Inr (int (length frame))) \<and>
         (write_error = None \<and> query_count engine table_name db1 = Inr n \<and> n \<noteq> int (length frame) \<longrightarrow>
            fst (load_data frame table_name engine db) = Raise (ValueError n (int (length frame))))"
  using assms by (auto simp: load_data_def split: option.splits sum.splits)

text \<open>
  An engineered mismatch: the engine that loses the last row. Two rows go in, one is
  counted, the error is raised and the table holds the one row.
\<close>

theorem load_data_checks_row_count_witness:
  "fst (load_data [observation (DateTs (september 1)) 30 5, observation (DateTs (september 2)) 25 40]
          ''daily_weather'' (lossy fetched_types) fresh_db) = Raise (ValueError 1 2) \<and>
   map_option trows (tables (fst (snd (load_data
          [observation (DateTs (september 1)) 30 5, observation (DateTs (september 2)) 25 40]
          ''daily_weather'' (lossy fetched_types) fresh_db))) ''daily_weather'') =
     Some [observation (DateTs (september 1)) 30 5]"
  using load_data_checks_row_count
          [of "lossy fetched_types" "''daily_weather''"
              "[observation (DateTs (september 1)) 30 5, observation (DateTs (september 2)) 25 40]"
              fresh_db
              "fresh_db\<lparr>tables := [''daily_weather'' \<mapsto> \<lparr>tcolumns = pandas_columns fetched_types,
                 trows = [observation (DateTs (september 1)) 30 5]\<rparr>]\<rparr>"
              None 1]
  by (simp add: lossy_def postgres_def pg_to_sql_def pg_query_count_def fresh_db_def)

lemma pandas_columns_no_key: "pandas_columns ty \<noteq> ddl_columns"
  by (simp add: pandas_columns_def ddl_columns_def frame_columns_def)

text \<open>
  Claim C4, which the code does not meet. On a database that answers and lets the role
  create tables, \<^verbatim>\<open>create_table\<close> succeeds, and a table it created has the columns of
  the DDL statement. \<^verbatim>\<open>load_data\<close> then succeeds too, for any frame, and the table it
  leaves has the columns pandas made from the frame: they are not the columns of the
  DDL statement, and none of them is a primary key.
\<close>

theorem load_data_drops_ddl_schema:
  assumes "reachable db" and "may_create db"
  shows "fst (create_table (postgres ty) table_name db) = Return ''Success'' \<and>
         (tables db table_name = None \<longrightarrow>
            map_option tcolumns (tables (fst (snd (create_table (postgres ty) table_name db))) table_name)
              = Some ddl_columns) \<and>
         fst (load_data frame table_name (postgres ty)
                (fst (snd (create_table (postgres ty) table_name db)))) = Return ''Success'' \<and>
         tables (fst (snd (load_data frame table_name (postgres ty)
                (fst (snd (create_table (postgres ty) table_name db)))))) table_name
           = Some \<lparr>tcolumns = pandas_columns ty, trows = frame\<rparr> \<and>
         pandas_columns ty \<noteq> ddl_columns \<and>
         list_all (\<lambda>c. \<not> pkey c) (pandas_columns ty)"
proof -
  have "list_all (\<lambda>c. \<not> pkey c) (pandas_columns ty)"
    by (simp add: pandas_columns_def list_all_iff)
  moreover from assms
  have "fst (create_table (postgres ty) table_name db) = Return ''Success''"
    and "tables db table_name = None \<longrightarrow>
           map_option tcolumns (tables (fst (snd (create_table (postgres ty) table_name db))) table_name)
             = Some ddl_columns"
    and "fst (load_data frame table_name (postgres ty)
                (fst (snd (create_table (postgres ty) table_name db)))) = Return ''Success''"
    and "tables (fst (snd (load_data frame table_name (postgres ty)
                (fst (snd (create_table (postgres ty) table_name db)))))) table_name
           = Some \<lparr>tcolumns = pandas_columns ty, trows = frame\<rparr>"
    by (auto simp: create_table_def load_data_def postgres_def pg_execute_ddl_def
          pg_query_exists_def pg_to_sql_def pg_query_count_def split: option.splits)
  ultimately show ?thesis
    using pandas_columns_no_key [of ty] by blast
qed

theorem load_data_drops_ddl_schema_witness:
  "map_option tcolumns (tables (fst (snd (create_table (postgres fetched_types) ''daily_weather'' fresh_db)))
      ''daily_weather'') = Some ddl_columns \<and>
   fst (load_data [observation (DateTs (september 1)) 30 5] ''daily_weather'' (postgres fetched_types)
          (fst (snd (create_table (postgres fetched_types) ''daily_weather'' fresh_db)))) = Return ''Success'' \<and>
   map_option (\<lambda>t. map pkey (tcolumns t))
     (tables (fst (snd (load_data [observation (DateTs (september 1)) 30 5] ''daily_weather''
          (postgres fetched_types)
          (fst (snd (create_table (postgres fetched_types) ''daily_weather'' fresh_db))))))
        ''daily_weather'') = Some [False, False, False, False, False, False, False]"
  using load_data_drops_ddl_schema
          [of fresh_db fetched_types "''daily_weather''" "[observation (DateTs (september 1)) 30 5]"]
  by (simp add: fresh_db_def pandas_columns_def frame_columns_def)

text \<open>
  Claim C9, as amended. When the DDL block raises \<open>e\<close>, \<^verbatim>\<open>create_table\<close> prints it and
  goes on to the existence check; what the function does is what that check does: it
  raises what the check raises, it raises the \<^verbatim>\<open>RuntimeError\<close> naming the table when
  the check finds no table, and it returns success when the check finds one.
\<close>

theorem create_table_logs_ddl_error:
  assumes "execute_ddl engine table_name ddl_columns db = (db1, Some e)"
  shows "create_table engine table_name db =
           (case query_exists engine table_name db1 of
              Inl e' \<Rightarrow> Raise e'
            | Inr table_exists \<Rightarrow>
                if table_exists then Return ''Success'' else Raise (RuntimeError table_name),
            db1,
            [Print MsgCreating, Print (MsgDDLError e)]
            @ (if query_exists engine table_name db1 = Inr True then [Print (MsgCreated table_name)] else []))"
  using assms by (simp add: create_table_def split: sum.splits)

text \<open>
  The database does not answer: the error of the DDL block is printed, and the function
  fails at the existence check, which cannot connect either.
\<close>

theorem create_table_logs_ddl_error_witness:
  "create_table (postgres fetched_types) ''daily_weather'' (fresh_db\<lparr>reachable := False\<rparr>) =
     (Raise OperationalError, fresh_db\<lparr>reachable := False\<rparr>,
      [Print MsgCreating, Print (MsgDDLError OperationalError)])"
  using create_table_logs_ddl_error
          [of "postgres fetched_types" "''daily_weather''" "fresh_db\<lparr>reachable := False\<rparr>"
              "fresh_db\<lparr>reachable := False\<rparr>" OperationalError]
  by (simp add: postgres_def pg_execute_ddl_def pg_query_exists_def fresh_db_def)

text \<open>
  Claim C9 as stated fails. The table exists and the role may not create tables: the
  DDL statement raises, and \<^verbatim>\<open>create_table\<close> prints the error and returns success.
\<close>

theorem ddl_error_propagates_counterexample:
  "execute_ddl (postgres fetched_types) ''daily_weather'' ddl_columns
     \<lparr>tables = [''daily_weather'' \<mapsto> \<lparr>tcolumns = ddl_columns, trows = []\<rparr>],
      reachable = True, may_create = False\<rparr> =
     (\<lparr>tables = [''daily_weather'' \<mapsto> \<lparr>tcolumns = ddl_columns, trows = []\<rparr>],
       reachable = True, may_create = False\<rparr>, Some ProgrammingError) \<and>
   create_table (postgres fetched_types) ''daily_weather''
     \<lparr>tables = [''daily_weather'' \<mapsto> \<lparr>tcolumns = ddl_columns, trows = []\<rparr>],
      reachable = True, may_create = False\<rparr> =
     (Return ''Success'',
      \<lparr>tables = [''daily_weather'' \<mapsto> \<lparr>tcolumns = ddl_columns, trows = []\<rparr>],
       reachable = True, may_create = False\<rparr>,
      [Print MsgCreating, Print (MsgDDLError ProgrammingError), Print (MsgCreated ''daily_weather'')])"
  by (simp add: create_table_def postgres_def pg_execute_ddl_def pg_query_exists_def)

subsection \<open>Asking the user\<close>

lemma ask_user_rejects:
  "\<forall>r\<in>set before. lower (strip r) \<noteq> ''y'' \<and> lower (strip r) \<noteq> ''n'' \<Longrightarrow>
   ask_user (before @ rest) =
     (fst (ask_user rest),
      concat (replicate (length before) [Prompt, Print MsgInvalidAnswer]) @ snd (ask_user rest))"
  by (induction before) (simp_all add: Let_def split: prod.splits)

text \<open>
  Claim C10. After any number of lines that, stripped and lowered, are neither
  \<^verbatim>\<open>y\<close> nor \<^verbatim>\<open>n\<close>, each answered by the error message and a new prompt, the first
  line that is one of the two ends the loop, and the function returns that line
  stripped and lowered; the lines after it are not read. As long as no such line has
  come the function has not returned: it has prompted once more than it has read lines,
  and only the end of the input (where \<^verbatim>\<open>input()\<close> raises) stops it.
\<close>

theorem ask_user_returns_first_valid_answer:
  assumes "\<forall>r\<in>set before. lower (strip r) \<noteq> ''y'' \<and> lower (strip r) \<noteq> ''n''"
  shows "(lower (strip line) = ''y'' \<or> lower (strip line) = ''n'' \<longrightarrow>
            ask_user (before @ line # rest) =
              (Return (lower (strip line)),
               concat (replicate (length before) [Prompt, Print MsgInvalidAnswer]) @ [Prompt])) \<and>
         ask_user before =
           (Raise EOFError,
            concat (replicate (length before) [Prompt, Print MsgInvalidAnswer]) @ [Prompt])"
  using ask_user_rejects [OF assms, of "line # rest"] ask_user_rejects [OF assms, of "[]"]
  by (auto simp: Let_def)

theorem ask_user_returns_first_valid_answer_witness:
  "ask_user [''yes'', ''Y N'', [], '' N  '', ''y''] =
     (Return ''n'',
      [Prompt, Print MsgInvalidAnswer, Prompt, Print MsgInvalidAnswer, Prompt, Print MsgInvalidAnswer,
       Prompt]) \<and>
   ask_user [''yes'', ''Y N'', []] =
     (Raise EOFError,
      [Prompt, Print MsgInvalidAnswer, Prompt, Print MsgInvalidAnswer, Prompt, Print MsgInvalidAnswer,
       Prompt])"
proof -
  have "lower (strip ''yes'') = ''yes''" "lower (strip ''Y N'') = ''y n''" "lower (strip []) = []"
    "lower (strip '' N  '') = ''n''"
    by code_simp+
  with ask_user_returns_first_valid_answer [of "[''yes'', ''Y N'', []]" "'' N  ''" "[''y'']"]
  show ?thesis by simp
qed

subsection \<open>The summary reporter and the caller's table\<close>

lemma with_date_simps [simp]:
  "date (with_date d r) = d"
  "weather_code (with_date d r) = weather_code r"
  "temperature_2m_max (with_date d r) = temperature_2m_max r"
  "wind_speed_10m_max (with_date d r) = wind_speed_10m_max r"
  by (simp_all add: with_date_def)

lemma with_date_same: "date r = d \<Longrightarrow> with_date d r = r"
  by (simp add: with_date_def)

lemma with_date_twice [simp]: "with_date d (with_date e r) = with_date d r"
  by (simp add: with_date_def)

lemma convert_dates_after:
  "convert_dates parse frame = Some converted \<Longrightarrow>
   map (\<lambda>r. with_date (DateTs (date r)) r) converted =
   map (\<lambda>r. with_date (DateTs (the (to_datetime parse (date r)))) r) frame"
  by (induction frame arbitrary: converted) (auto split: option.splits)

lemma convert_dates_timestamps:
  "\<forall>r\<in>set frame. \<exists>t. date r = DateTs t \<Longrightarrow>
   \<exists>converted. convert_dates parse frame = Some converted \<and>
     map (\<lambda>r. with_date (DateTs (date r)) r) converted = frame"
  by (induction frame) (auto simp: with_date_same)

text \<open>
  Claim C7, as amended. The two counts read the table and nothing else. \<^verbatim>\<open>get_dates\<close>
  assigns the converted date column to the caller's table: every other column is as it
  was; when the column held timestamps already (as the fetcher builds it) the table is
  as it was; when the conversion raises, the assignment has not happened; otherwise
  each date of the table is now the timestamp its old value was read as.
\<close>

theorem summary_reporter_converts_dates_in_place:
  assumes "summary_reporter parse frame = ((count1, count2, result), after)"
  shows "count1 = sunny_days frame \<and> count2 = warm_days frame \<and>
         map (with_date ()) after = map (with_date ()) frame \<and>
         ((\<forall>r\<in>set frame. \<exists>t. date r = DateTs t) \<longrightarrow> after = frame) \<and>
         (result = Raise ParserError \<longrightarrow> after = frame) \<and>
         (result \<noteq> Raise ParserError \<longrightarrow>
            after = map (\<lambda>r. with_date (DateTs (the (to_datetime parse (date r)))) r) frame)"
proof (cases "convert_dates parse frame")
  case None
  have "\<not> (\<forall>r\<in>set frame. \<exists>t. date r = DateTs t)"
    using convert_dates_timestamps [of frame parse] None by auto
  with None assms show ?thesis
    by (auto simp: summary_reporter_def get_dates_def Let_def)
next
  case (Some converted)
  from assms Some have after: "after = map (\<lambda>r. with_date (DateTs (date r)) r) converted"
    and res: "result \<noteq> Raise ParserError"
    and c: "count1 = sunny_days frame" "count2 = warm_days frame"
    by (auto simp: summary_reporter_def get_dates_def Let_def split: option.splits)
  from after convert_dates_after [OF Some]
  have a2: "after = map (\<lambda>r. with_date (DateTs (the (to_datetime parse (date r)))) r) frame"
    by simp
  have "(\<forall>r\<in>set frame. \<exists>t. date r = DateTs t) \<longrightarrow> after = frame"
    using convert_dates_timestamps [of frame parse] Some after by auto
  moreover have "map (with_date ()) after = map (with_date ()) frame"
    unfolding a2 by simp
  ultimately show ?thesis using res c a2 by blast
qed

theorem summary_reporter_converts_dates_in_place_witness:
  "snd (summary_reporter parse_3_september
          [observation (DateTs (september 1)) 30 5, observation (DateTs (september 2)) 25 40]) =
     [observation (DateTs (september 1)) 30 5, observation (DateTs (september 2)) 25 40] \<and>
   snd (summary_reporter parse_3_september
          [observation (DateTs (september 1)) 30 5, observation (DateStr ''2024-09-03'') 25 40]) =
     [observation (DateTs (september 1)) 30 5, observation (DateTs (september 3)) 25 40]"
  using summary_reporter_converts_dates_in_place
          [of parse_3_september
              "[observation (DateTs (september 1)) 30 5, observation (DateTs (september 2)) 25 40]"
              "fst (fst (summary_reporter parse_3_september
                 [observation (DateTs (september 1)) 30 5, observation (DateTs (september 2)) 25 40]))"
              "fst (snd (fst (summary_reporter parse_3_september
                 [observation (DateTs (september 1)) 30 5, observation (DateTs (september 2)) 25 40])))"
              "snd (snd (fst (summary_reporter parse_3_september
                 [observation (DateTs (september 1)) 30 5, observation (DateTs (september 2)) 25 40])))"
              "snd (summary_reporter parse_3_september
                 [observation (DateTs (september 1)) 30 5, observation (DateTs (september 2)) 25 40])"]
  by (simp add: summary_reporter_def get_dates_def parse_3_september_def observation_def
        with_date_def september_def split: prod.splits)

text \<open>
  Claim C7 as stated fails. The date of the one row is a string, the format the
  docstring of \<^verbatim>\<open>get_dates\<close> names: after the call the caller's table holds a
  timestamp in its place.
\<close>

theorem reporter_leaves_table_counterexample:
  "snd (summary_reporter parse_3_september [observation (DateStr ''2024-09-03'') 30 5]) =
     [observation (DateTs (september 3)) 30 5] \<and>
   snd (summary_reporter parse_3_september [observation (DateStr ''2024-09-03'') 30 5]) \<noteq>
     [observation (DateStr ''2024-09-03'') 30 5]"
  by (simp add: summary_reporter_def get_dates_def parse_3_september_def observation_def
        with_date_def september_def split: prod.splits)

subsection \<open>The three dates\<close>

text \<open>
  Claim C5. Three rows of distinct dates with temperatures 30, 25, 20 and wind speeds
  5, 40, 2, whatever their other columns: the two top-3 frames hold the same three
  dates, in the orders of temperature and of wind speed; of the six pooled rows
  \<^verbatim>\<open>drop_duplicates\<close> keeps one per date; and \<^verbatim>\<open>get_dates\<close> returns the three
  dates formatted, in descending order of temperature.
\<close>

theorem get_dates_three_rows:
  assumes "distinct [d1, d2, d3]"
    and "date r1 = DateTs d1" "temperature_2m_max r1 = Some 30" "wind_speed_10m_max r1 = Some 5"
    and "date r2 = DateTs d2" "temperature_2m_max r2 = Some 25" "wind_speed_10m_max r2 = Some 40"
    and "date r3 = DateTs d3" "temperature_2m_max r3 = Some 20" "wind_speed_10m_max r3 = Some 2"
    and "format_date d1 = Some f1" "format_date d2 = Some f2" "format_date d3 = Some f3"
  shows "convert_dates parse [r1, r2, r3] = Some [with_date d1 r1, with_date d2 r2, with_date d3 r3] \<and>
         map p_date (top_temp_dates [with_date d1 r1, with_date d2 r2, with_date d3 r3]) = [d1, d2, d3] \<and>
         map p_date (top_wind_dates [with_date d1 r1, with_date d2 r2, with_date d3 r3]) = [d2, d1, d3] \<and>
         map p_date (drop_duplicates p_date []
            (top_temp_dates [with_date d1 r1, with_date d2 r2, with_date d3 r3]
             @ top_wind_dates [with_date d1 r1, with_date d2 r2, with_date d3 r3])) = [d1, d2, d3] \<and>
         fst (get_dates parse [r1, r2, r3]) = Return [f1, f2, f3]"
  using assms
  by (auto simp: get_dates_def top_dates_def top_temp_dates_def top_wind_dates_def nlargest_def)

theorem get_dates_three_rows_witness:
  "fst (get_dates parse_3_september
          [observation (DateTs (september 1)) 30 5, observation (DateTs (september 2)) 25 40,
           observation (DateTs (september 3)) 20 2]) =
     Return [(1, Sentyabrya, 2024), (2, Sentyabrya, 2024), (3, Sentyabrya, 2024)]"
  using get_dates_three_rows
          [of "september 1" "september 2" "september 3"
              "observation (DateTs (september 1)) 30 5" "observation (DateTs (september 2)) 25 40"
              "observation (DateTs (september 3)) 20 2"
              "(1, Sentyabrya, 2024)" "(2, Sentyabrya, 2024)" "(3, Sentyabrya, 2024)"
              parse_3_september]
  by (simp add: observation_def september_def format_date_def months_def)

subsection \<open>Which dates \<^verbatim>\<open>get_dates\<close> returns\<close>

lemma nlargest_all_present:
  "\<forall>r\<in>set frame. col r \<noteq> None \<Longrightarrow>
   nlargest n col frame = take n (sort_key (\<lambda>r. case col r of None \<Rightarrow> 0 | Some v \<Rightarrow> - v) frame)"
  by (simp add: nlargest_def filter_id_conv filter_empty_conv)

lemma nlargest_set: "set (nlargest n col frame) \<subseteq> set frame"
  by (auto simp: nlargest_def dest: in_set_takeD)

lemma nlargest_length: "length (nlargest n col frame) = min n (length frame)"
proof -
  have "length (filter (\<lambda>r. col r \<noteq> None) frame) + length (filter (\<lambda>r. col r = None) frame) = length frame"
    using sum_length_filter_compl [of "\<lambda>r. col r \<noteq> None" frame] by simp
  then show ?thesis by (simp add: nlargest_def)
qed

lemma nlargest_distinct:
  assumes "distinct (map key frame)"
  shows "distinct (map key (nlargest n col frame))"
proof -
  let ?k = "\<lambda>r. case col r of None \<Rightarrow> 0 | Some v \<Rightarrow> - v"
  let ?all = "sort_key ?k (filter (\<lambda>r. col r \<noteq> None) frame) @ filter (\<lambda>r. col r = None) frame"
  from assms have d: "distinct frame" and i: "inj_on key (set frame)"
    by (simp_all add: distinct_map)
  have "distinct ?all" using d by auto
  moreover have "set ?all \<subseteq> set frame" by auto
  ultimately have "distinct (map key ?all)"
    using i by (simp only: distinct_map) (blast intro: inj_on_subset)
  then have "distinct (take n (map key ?all))" by (rule distinct_take)
  then show ?thesis by (simp only: nlargest_def take_map)
qed

lemma nlargest_sorted:
  "\<forall>r\<in>set frame. col r \<noteq> None \<Longrightarrow>
   sorted (map (\<lambda>r. case col r of None \<Rightarrow> 0 | Some v \<Rightarrow> - v) (nlargest n col frame))"
  by (simp add: nlargest_all_present flip: take_map)

lemma drop_duplicates_subset: "set (drop_duplicates key seen rs) \<subseteq> set rs"
  by (induction rs arbitrary: seen) auto

lemma drop_duplicates_distinct_prefix:
  "distinct (map key xs) \<Longrightarrow> set (map key xs) \<inter> set seen = {} \<Longrightarrow>
   drop_duplicates key seen (xs @ ys) = xs @ drop_duplicates key (rev (map key xs) @ seen) ys"
  by (induction xs arbitrary: seen) auto

lemma top_dates_are_top_temp_dates:
  assumes len: "3 \<le> length frame"
    and temp: "\<forall>r\<in>set frame. temperature_2m_max r \<noteq> None"
    and dist: "distinct (map date frame)"
  shows "top_dates frame = top_temp_dates frame"
proof -
  let ?T = "top_temp_dates frame"
  let ?D = "drop_duplicates p_date (rev (map p_date ?T)) (top_wind_dates frame)"
  let ?k = "\<lambda>p. case p_temperature_2m_max p of None \<Rightarrow> 0 | Some v \<Rightarrow> - v"
  have dedup: "drop_duplicates p_date [] (?T @ top_wind_dates frame) = ?T @ ?D"
    using nlargest_distinct [OF dist, of 3 temperature_2m_max]
    by (subst drop_duplicates_distinct_prefix) (simp_all add: top_temp_dates_def comp_def)
  have T_some: "\<forall>p\<in>set ?T. p_temperature_2m_max p \<noteq> None"
    using temp nlargest_set [of 3 temperature_2m_max frame] by (auto simp: top_temp_dates_def)
  have "\<forall>p\<in>set (top_wind_dates frame). p_temperature_2m_max p = None"
    by (simp add: top_wind_dates_def)
  with drop_duplicates_subset [of p_date _ "top_wind_dates frame"]
  have D_none: "\<forall>p\<in>set ?D. p_temperature_2m_max p = None" by blast
  have T_len: "length ?T = 3"
    using len by (simp add: top_temp_dates_def nlargest_length)
  have "sorted (map ?k ?T)"
    using nlargest_sorted [OF temp, of 3] by (simp add: top_temp_dates_def comp_def)
  then have T_sorted: "sort_key ?k ?T = ?T" by (rule sort_key_id_if_sorted)
  have f1: "filter (\<lambda>p. p_temperature_2m_max p \<noteq> None) (?T @ ?D) = ?T"
    using T_some D_none by (simp add: filter_id_conv filter_empty_conv)
  have "nlargest 3 p_temperature_2m_max (?T @ ?D) = take 3 (?T @ filter (\<lambda>p. p_temperature_2m_max p = None) (?T @ ?D))"
    unfolding nlargest_def f1 T_sorted ..
  also have "\<dots> = ?T" using T_len by simp
  finally show ?thesis unfolding top_dates_def dedup .
qed


lemma nlargest_top:
  assumes temp: "\<forall>r\<in>set frame. col r \<noteq> None"
    and x: "x \<in> set (nlargest n col frame)"
    and y: "y \<in> set frame" "y \<notin> set (nlargest n col frame)"
  shows "the (col y) \<le> the (col x)"
proof -
  let ?k = "\<lambda>r. case col r of None \<Rightarrow> 0 | Some v \<Rightarrow> - v"
  let ?S = "sort_key ?k frame"
  have n: "nlargest n col frame = take n ?S" using temp by (simp add: nlargest_def filter_id_conv filter_empty_conv)
  have "set ?S = set (take n ?S) \<union> set (drop n ?S)"
    by (metis append_take_drop_id set_append)
  with y n have yd: "y \<in> set (drop n ?S)" by auto
  have "sorted (map ?k (take n ?S) @ map ?k (drop n ?S))"
    by (simp flip: map_append)
  with x yd n have "?k x \<le> ?k y" by (auto simp: sorted_append)
  moreover from temp x n have "col x \<noteq> None" by (auto dest: in_set_takeD)
  moreover from temp y(1) have "col y \<noteq> None" by auto
  ultimately show ?thesis by auto
qed

lemma insort_key_map:
  "map g (insort_key (\<lambda>x. f (g x)) x xs) = insort_key f (g x) (map g xs)"
  by (induction xs) simp_all

lemma sort_key_map:
  "map g (sort_key (\<lambda>x. f (g x)) xs) = sort_key f (map g xs)"
  by (induction xs) (simp_all add: insort_key_map)

lemma nlargest_map:
  "map g (nlargest n (\<lambda>r. col (g r)) frame) = nlargest n col (map g frame)"
  by (simp add: nlargest_def take_map filter_map comp_def sort_key_map [symmetric])

lemma map_pair: "map (\<lambda>r. (f r, g r)) xs = zip (map f xs) (map g xs)"
  by (induction xs) simp_all

lemma nlargest_dates_zip:
  "map date (nlargest n col frame) = map fst (nlargest n snd (zip (map date frame) (map col frame)))"
proof -
  have "map fst (map (\<lambda>r. (date r, col r)) (nlargest n col frame)) =
        map fst (nlargest n snd (map (\<lambda>r. (date r, col r)) frame))"
    using nlargest_map [of "\<lambda>r. (date r, col r)" n snd frame] by simp
  then show ?thesis by (simp add: comp_def map_pair)
qed

lemma nlargest_dates_depend_on_dates_and_column:
  assumes "map date frame2 = map date frame" and "map col frame2 = map col frame"
  shows "map date (nlargest n col frame2) = map date (nlargest n col frame)"
  using assms by (simp add: nlargest_dates_zip)


lemma get_dates_converted:
  "convert_dates parse daily_dataframe = Some frame \<Longrightarrow>
   fst (get_dates parse daily_dataframe) =
     (case those (map (\<lambda>r. format_date (p_date r)) (top_dates frame)) of
        None \<Rightarrow> Raise KeyError
      | Some formatted_dates \<Rightarrow> Return formatted_dates)"
  by (simp add: get_dates_def)

lemma top_temp_dates_dates: "map p_date (top_temp_dates frame) = map date (nlargest 3 temperature_2m_max frame)"
  by (simp add: top_temp_dates_def comp_def)

lemma get_dates_by_temperature:
  assumes conv: "convert_dates parse daily_dataframe = Some frame"
    and len: "3 \<le> length frame"
    and temp: "\<forall>r\<in>set frame. temperature_2m_max r \<noteq> None"
    and dist: "distinct (map date frame)"
  shows "fst (get_dates parse daily_dataframe) =
           (case those (map format_date (map date (nlargest 3 temperature_2m_max frame))) of
              None \<Rightarrow> Raise KeyError
            | Some formatted_dates \<Rightarrow> Return formatted_dates)"
proof -
  have "map (\<lambda>r. format_date (p_date r)) (top_dates frame) =
        map format_date (map p_date (top_temp_dates frame))"
    using top_dates_are_top_temp_dates [OF len temp dist] by (simp add: comp_def)
  then show ?thesis
    using get_dates_converted [OF conv] by (simp only: top_temp_dates_dates)
qed

lemma convert_dates_of_timestamps:
  "convert_dates parse (map (\<lambda>r. with_date (DateTs (date r)) r) frame) = Some frame"
  by (induction frame) (simp_all add: with_date_def)

lemma observation_ts: "with_date (DateTs (date (observation d t w))) (observation d t w) = observation (DateTs d) t w"
  by (simp add: observation_def with_date_def)

text \<open>
  Claim C6. The table has one row per date (the invariant of the weather table), at
  least three rows and no missing temperature. Then \<^verbatim>\<open>get_dates\<close> returns the
  formatted dates of \<^verbatim>\<open>nlargest(3, 'temperature_2m_max')\<close> of the table: three rows,
  none of them colder than any row left out. No row of the final selection is one of
  the pooled wind-speed rows, whose temperature is missing. And any table with the same
  dates and the same temperatures gives the same result, whatever its wind speeds.
\<close>

theorem get_dates_ignores_wind_speed:
  assumes conv: "convert_dates parse daily_dataframe = Some frame"
    and len: "3 \<le> length frame"
    and temp: "\<forall>r\<in>set frame. temperature_2m_max r \<noteq> None"
    and dist: "distinct (map date frame)"
  shows "fst (get_dates parse daily_dataframe) =
           (case those (map format_date (map date (nlargest 3 temperature_2m_max frame))) of
              None \<Rightarrow> Raise KeyError
            | Some formatted_dates \<Rightarrow> Return formatted_dates) \<and>
         length (nlargest 3 temperature_2m_max frame) = 3 \<and>
         (\<forall>x\<in>set (nlargest 3 temperature_2m_max frame). \<forall>y\<in>set frame.
            y \<notin> set (nlargest 3 temperature_2m_max frame) \<longrightarrow>
            the (temperature_2m_max y) \<le> the (temperature_2m_max x)) \<and>
         (\<forall>p\<in>set (top_dates frame). p_temperature_2m_max p \<noteq> None) \<and>
         (\<forall>other frame2.
            convert_dates parse other = Some frame2 \<and> map date frame2 = map date frame \<and>
            map temperature_2m_max frame2 = map temperature_2m_max frame \<longrightarrow>
            fst (get_dates parse other) = fst (get_dates parse daily_dataframe))"
proof (intro conjI allI impI ballI)
  show "fst (get_dates parse daily_dataframe) =
           (case those (map format_date (map date (nlargest 3 temperature_2m_max frame))) of
              None \<Rightarrow> Raise KeyError
            | Some formatted_dates \<Rightarrow> Return formatted_dates)"
    by (rule get_dates_by_temperature [OF conv len temp dist])
next
  show "length (nlargest 3 temperature_2m_max frame) = 3"
    using len by (simp add: nlargest_length)
next
  fix x y
  assume "x \<in> set (nlargest 3 temperature_2m_max frame)" "y \<in> set frame"
    "y \<notin> set (nlargest 3 temperature_2m_max frame)"
  then show "the (temperature_2m_max y) \<le> the (temperature_2m_max x)"
    using nlargest_top [OF temp] by blast
next
  fix p assume "p \<in> set (top_dates frame)"
  then have "p \<in> set (top_temp_dates frame)"
    using top_dates_are_top_temp_dates [OF len temp dist] by simp
  then show "p_temperature_2m_max p \<noteq> None"
    using temp nlargest_set [of 3 temperature_2m_max frame] by (auto simp: top_temp_dates_def)
next
  fix other frame2
  assume a: "convert_dates parse other = Some frame2 \<and> map date frame2 = map date frame \<and>
            map temperature_2m_max frame2 = map temperature_2m_max frame"
  then have d2: "map date frame2 = map date frame"
    and t2: "map temperature_2m_max frame2 = map temperature_2m_max frame" by simp_all
  from d2 have "length frame2 = length frame" by (metis length_map)
  with len have len2: "3 \<le> length frame2" by simp
  from t2 have "temperature_2m_max ` set frame2 = temperature_2m_max ` set frame"
    by (metis set_map)
  with temp have temp2: "\<forall>r\<in>set frame2. temperature_2m_max r \<noteq> None" by force
  from d2 dist have dist2: "distinct (map date frame2)" by simp
  from a have conv2: "convert_dates parse other = Some frame2" by simp
  show "fst (get_dates parse other) = fst (get_dates parse daily_dataframe)"
    unfolding get_dates_by_temperature [OF conv2 len2 temp2 dist2]
      get_dates_by_temperature [OF conv len temp dist]
      nlargest_dates_depend_on_dates_and_column [OF d2 t2] ..
qed

text \<open>
  Five days: the windiest are the 5th, the 4th and the 2nd, the warmest the 5th, the
  1st and the 2nd. The 4th, which only the wind speed selects, is not returned.
\<close>

theorem get_dates_ignores_wind_speed_witness:
  "fst (get_dates parse_3_september
          [observation (DateTs (september 1)) 30 5, observation (DateTs (september 2)) 25 40,
           observation (DateTs (september 3)) 20 2, observation (DateTs (september 4)) 10 50,
           observation (DateTs (september 5)) 31 60]) =
     Return [(5, Sentyabrya, 2024), (1, Sentyabrya, 2024), (2, Sentyabrya, 2024)]"
proof -
  let ?frame = "[observation (september 1) 30 5, observation (september 2) 25 40,
           observation (september 3) 20 2, observation (september 4) 10 50,
           observation (september 5) 31 60]"
  let ?df = "[observation (DateTs (september 1)) 30 5, observation (DateTs (september 2)) 25 40,
           observation (DateTs (september 3)) 20 2, observation (DateTs (september 4)) 10 50,
           observation (DateTs (september 5)) 31 60]"
  have conv: "convert_dates parse_3_september ?df = Some ?frame"
    using convert_dates_of_timestamps [of parse_3_september ?frame] by (simp add: observation_ts)
  have len: "3 \<le> length ?frame" by simp
  have temp: "\<forall>r\<in>set ?frame. temperature_2m_max r \<noteq> None" by (simp add: observation_def)
  have dist: "distinct (map date ?frame)" by (simp add: observation_def september_def)
  have top: "map date (nlargest 3 temperature_2m_max ?frame) = [september 5, september 1, september 2]"
    by (simp add: nlargest_def observation_def)
  have fmt: "format_date (september d) = Some (d, Sentyabrya, 2024)" for d
    by (simp add: format_date_def months_def september_def)
  from get_dates_ignores_wind_speed [OF conv len temp dist, THEN conjunct1]
  show ?thesis unfolding top by (simp add: fmt)
qed

end
